theory Spec2Isabelle
  imports Complex_Main
begin

section \<open>JavaScript values inspected by the entry points\<close>

text \<open>
  The two entry points of \<^verbatim>\<open>src/index.ts\<close> look at their arguments only through
  truthiness (\<^verbatim>\<open>!url\<close>, \<^verbatim>\<open>!stream\<close>, \<^verbatim>\<open>!options.opusEncoded\<close>), \<^verbatim>\<open>typeof\<close>,
  \<^verbatim>\<open>instanceof Buffer\<close>, \<^verbatim>\<open>Array.isArray\<close> and \<^verbatim>\<open>isNaN\<close>. A number is
  NaN, an infinity or a finite value (both zeros are \<open>Finite 0\<close>); a BigInt is its
  integer; an array holds strings, as the declared type \<^verbatim>\<open>string[]\<close> says; \<open>Obj\<close> is
  any object that is neither an array, a Buffer, a readable stream nor a function;
  \<open>Stream\<close> is a Readable or Duplex handed in by the caller. These are all the kinds of
  value the language has: undefined, null, booleans, numbers, BigInts, strings, symbols,
  objects and functions.
\<close>

datatype jsnum = NaN | PosInfinity | NegInfinity | Finite real

datatype jsval =
    Undefined
  | Null
  | Bool bool
  | Num jsnum
  | BigInt int
  | Str string
  | Symbol
  | Arr "string list"
  | Obj
  | Function
  | Buffer "nat list"
  | Stream

fun truthy :: "jsval \<Rightarrow> bool" where
  "truthy Undefined = False"
| "truthy Null = False"
| "truthy (Bool b) = b"
| "truthy (Num n) = (n \<noteq> NaN \<and> n \<noteq> Finite 0)"
| "truthy (BigInt i) = (i \<noteq> 0)"
| "truthy (Str s) = (s \<noteq> [])"
| "truthy Symbol = True"
| "truthy (Arr xs) = True"
| "truthy Obj = True"
| "truthy Function = True"
| "truthy (Buffer bs) = True"
| "truthy Stream = True"

fun typeof :: "jsval \<Rightarrow> string" where
  "typeof Undefined = ''undefined''"
| "typeof Null = ''object''"
| "typeof (Bool b) = ''boolean''"
| "typeof (Num n) = ''number''"
| "typeof (BigInt i) = ''bigint''"
| "typeof (Str s) = ''string''"
| "typeof Symbol = ''symbol''"
| "typeof (Arr xs) = ''object''"
| "typeof Obj = ''object''"
| "typeof Function = ''function''"
| "typeof (Buffer bs) = ''object''"
| "typeof Stream = ''object''"

fun isArray :: "jsval \<Rightarrow> bool" where
  "isArray (Arr xs) = True"
| "isArray v = False"

fun instanceof_Buffer :: "jsval \<Rightarrow> bool" where
  "instanceof_Buffer (Buffer bs) = True"
| "instanceof_Buffer v = False"

text \<open>The text of a value whose \<^verbatim>\<open>typeof\<close> is \<^verbatim>\<open>'string'\<close>.\<close>

fun text_of :: "jsval \<Rightarrow> string" where
  "text_of (Str s) = s"
| "text_of v = []"

text \<open>
  \<^verbatim>\<open>isNaN(options.seek)\<close> on the declared type \<^verbatim>\<open>seek?: number\<close>: an absent field is
  \<^verbatim>\<open>undefined\<close>, which \<^verbatim>\<open>isNaN\<close> coerces to NaN.
\<close>

fun isNaN :: "jsnum option \<Rightarrow> bool" where
  "isNaN None = True"
| "isNaN (Some n) = (n = NaN)"

subsection \<open>Options\<close>

text \<open>
  \<^verbatim>\<open>StreamOptions\<close> (and the same four fields of \<^verbatim>\<open>YTDLStreamOptions\<close>; its other
  fields are ytdl-core's download options, which this code hands on unread). \<open>seek\<close>
  follows its declared type; the other three fields are tested at run time by the code,
  so they hold any value (\<open>Undefined\<close> when the field is absent).
\<close>

record StreamOptions =
  seek :: "jsnum option"
  encoderArgs :: jsval
  fmt :: jsval
  opusEncoded :: jsval

definition empty_options :: StreamOptions where
  "empty_options =
     \<lparr>seek = None, encoderArgs = Undefined, fmt = Undefined, opusEncoded = Undefined\<rparr>"

text \<open>\<^verbatim>\<open>options ??= {}\<close>; \<open>None\<close> is the omitted (or nullish) second argument.\<close>

fun nullish_default :: "StreamOptions option \<Rightarrow> StreamOptions" where
  "nullish_default None = empty_options"
| "nullish_default (Some opts) = opts"

section \<open>The argument lists\<close>

text \<open>
  \<open>toString\<close> is \<^verbatim>\<open>Number.prototype.toString\<close>, the language's rendering of a number;
  it is a parameter of everything that builds an argument list.
\<close>

definition fmt_or_default :: "jsval \<Rightarrow> string" where
  "fmt_or_default f = (if typeof f = ''string'' then text_of f else ''s16le'')"

definition common_args :: "StreamOptions \<Rightarrow> string list" where
  "common_args options =
     [''-analyzeduration'', ''0'', ''-loglevel'', ''0'',
      ''-f'', fmt_or_default (fmt options), ''-ar'', ''48000'', ''-ac'', ''2'']"

text \<open>\<^verbatim>\<open>if (!isNaN(options.seek)) FFmpegArgs.unshift('-ss', options.seek.toString())\<close>\<close>

definition unshift_seek :: "(jsnum \<Rightarrow> string) \<Rightarrow> StreamOptions \<Rightarrow> string list \<Rightarrow> string list" where
  "unshift_seek toString options FFmpegArgs =
     (if \<not> isNaN (seek options)
      then (case seek options of
              Some n \<Rightarrow> [''-ss'', toString n] @ FFmpegArgs
            | None \<Rightarrow> FFmpegArgs)
      else FFmpegArgs)"

text \<open>\<^verbatim>\<open>if (Array.isArray(options.encoderArgs)) FFmpegArgs = FFmpegArgs.concat(options.encoderArgs)\<close>\<close>

definition concat_encoderArgs :: "StreamOptions \<Rightarrow> string list \<Rightarrow> string list" where
  "concat_encoderArgs options FFmpegArgs =
     (if isArray (encoderArgs options)
      then (case encoderArgs options of Arr xs \<Rightarrow> FFmpegArgs @ xs | _ \<Rightarrow> FFmpegArgs)
      else FFmpegArgs)"

text \<open>Lines 58 to 77: the list \<^verbatim>\<open>StreamDownloader\<close> gives to the transcoder.\<close>

definition StreamDownloader_args :: "(jsnum \<Rightarrow> string) \<Rightarrow> StreamOptions \<Rightarrow> string list" where
  "StreamDownloader_args toString options =
     concat_encoderArgs options (unshift_seek toString options (common_args options))"

text \<open>Lines 137 to 183: the list \<^verbatim>\<open>arbitraryStream\<close> gives to the transcoder.\<close>

definition arbitraryStream_base :: "jsval \<Rightarrow> StreamOptions \<Rightarrow> string list" where
  "arbitraryStream_base stream options =
     (if typeof stream = ''string''
      then [''-reconnect'', ''1'', ''-reconnect_streamed'', ''1'', ''-reconnect_delay_max'', ''5'',
            ''-i'', text_of stream] @ common_args options
      else if instanceof_Buffer stream
           then common_args options @ [''-i'', ''-'']
           else common_args options)"

definition arbitraryStream_args ::
  "(jsnum \<Rightarrow> string) \<Rightarrow> jsval \<Rightarrow> StreamOptions \<Rightarrow> string list" where
  "arbitraryStream_args toString stream options =
     concat_encoderArgs options
       (unshift_seek toString options (arbitraryStream_base stream options))"

text \<open>The reconnect flags, lines 140 to 145.\<close>

definition reconnect_flags :: "string list" where
  "reconnect_flags = [''-reconnect'', ''-reconnect_streamed'', ''-reconnect_delay_max'']"

section \<open>Stages, pipes and listeners\<close>

text \<open>
  A call builds at most three stages: the input stream (ytdl's stream, the caller's
  stream, or \<^verbatim>\<open>Readable.from(buffer)\<close>), the transcoder and the Opus encoder. The
  stage classes are collaborators (prism-media, ytdl-core, Node's streams); what this code
  does with them is construct them, pipe one into the next, register listeners and, in the
  listeners, emit events and call \<^verbatim>\<open>destroy\<close>. The pipeline records exactly that, each
  list in the order of the calls.
\<close>

datatype stage = InputStream | Transcoder | Encoder

datatype construction =
    Ytdl string StreamOptions
  | FFmpeg "string list"
  | OpusEncoder nat nat nat
  | ReadableFrom "nat list"

text \<open>
  The bodies of the listeners registered in the source:
  \<^verbatim>\<open>(...args) => s.emit(event, ...args)\<close> is \<open>Emit s event\<close>,
  \<^verbatim>\<open>(e) => s.emit('error', e)\<close> is \<open>EmitFirst s ''error''\<close>, and
  \<^verbatim>\<open>s.destroy()\<close> is \<open>Destroy s\<close>.
\<close>

datatype action = Emit stage string | EmitFirst stage string | Destroy stage

record pipeline =
  constructed :: "(stage \<times> construction) list"
  pipes :: "(stage \<times> stage) list"
  listeners :: "(stage \<times> string \<times> action list) list"

definition no_pipeline :: pipeline where
  "no_pipeline = \<lparr>constructed = [], pipes = [], listeners = []\<rparr>"

definition construct :: "stage \<Rightarrow> construction \<Rightarrow> pipeline \<Rightarrow> pipeline" where
  "construct s c p = p\<lparr>constructed := constructed p @ [(s, c)]\<rparr>"

definition pipe :: "stage \<Rightarrow> stage \<Rightarrow> pipeline \<Rightarrow> pipeline" where
  "pipe src dst p = p\<lparr>pipes := pipes p @ [(src, dst)]\<rparr>"

definition on :: "stage \<Rightarrow> string \<Rightarrow> action list \<Rightarrow> pipeline \<Rightarrow> pipeline" where
  "on s event body p = p\<lparr>listeners := listeners p @ [(s, event, body)]\<rparr>"

datatype error = Error string | SyntaxError string | TypeError string

text \<open>The ytdl events, line 6.\<close>

definition evn :: "string list" where
  "evn = [''info'', ''progress'', ''abort'', ''request'', ''response'', ''error'',
          ''redirect'', ''retry'', ''reconnect'']"

text \<open>
  \<^verbatim>\<open>for (const event of evn) src.on(event, (...args) => dst.emit(event, ...args))\<close>
\<close>

fun relay_events :: "string list \<Rightarrow> stage \<Rightarrow> stage \<Rightarrow> pipeline \<Rightarrow> pipeline" where
  "relay_events [] src dst p = p"
| "relay_events (event # rest) src dst p =
     relay_events rest src dst (on src event [Emit dst event] p)"

section \<open>The entry points\<close>

text \<open>
  Each entry point returns the stream it hands back (or the error it throws) and the
  pipeline it has built by then: \<open>no_pipeline\<close> when it throws before constructing
  anything. In \<^verbatim>\<open>if (options && !options.opusEncoded)\<close> the first conjunct is always
  true, \<^verbatim>\<open>options\<close> being an object after \<^verbatim>\<open>options ??= {}\<close>.
\<close>

definition StreamDownloader ::
  "(jsnum \<Rightarrow> string) \<Rightarrow> jsval \<Rightarrow> StreamOptions option \<Rightarrow> (error + stage) \<times> pipeline" where
  "StreamDownloader toString url options0 =
     (if \<not> truthy url then (Inl (Error ''No input url provided''), no_pipeline)
      else if typeof url \<noteq> ''string''
      then (Inl (SyntaxError (''input URL must be a string. Received '' @ typeof url @ ''!'')),
            no_pipeline)
      else
        let options = nullish_default options0;
            FFmpegArgs = StreamDownloader_args toString options;
            p1 = construct Transcoder (FFmpeg FFmpegArgs) no_pipeline;
            p2 = construct InputStream (Ytdl (text_of url) options) p1;
            p3 = pipe InputStream Transcoder p2
        in if \<not> truthy (opusEncoded options)
           then
             let p4 = relay_events evn InputStream Transcoder p3;
                 p5 = on InputStream ''error'' [Destroy Transcoder] p4;
                 p6 = on Transcoder ''close'' [Destroy Transcoder] p5
             in (Inr Transcoder, p6)
           else
             let p4 = construct Encoder (OpusEncoder 48000 2 960) p3;
                 p5 = pipe Transcoder Encoder p4;
                 p6 = on Transcoder ''error'' [EmitFirst Encoder ''error''] p5;
                 p7 = relay_events evn InputStream Encoder p6;
                 p8 = on Encoder ''close'' [Destroy Transcoder, Destroy Encoder] p7
             in (Inr Encoder, p8))"

text \<open>
  Lines 188 to 194 of \<^verbatim>\<open>arbitraryStream\<close>: a Buffer is wrapped by
  \<^verbatim>\<open>Readable.from\<close>, the stream is piped into the transcoder and its \<^verbatim>\<open>error\<close>
  destroys the transcoder. A value that is neither a string, a Buffer nor a stream has no
  \<^verbatim>\<open>pipe\<close> method, and calling it throws a TypeError, after the transcoder was
  constructed.
\<close>

definition feed_input :: "jsval \<Rightarrow> pipeline \<Rightarrow> (error \<times> pipeline) + pipeline" where
  "feed_input stream p =
     (if typeof stream \<noteq> ''string''
      then (case stream of
              Buffer bs \<Rightarrow>
                Inr (on InputStream ''error'' [Destroy Transcoder]
                      (pipe InputStream Transcoder
                        (construct InputStream (ReadableFrom bs) p)))
            | Stream \<Rightarrow>
                Inr (on InputStream ''error'' [Destroy Transcoder]
                      (pipe InputStream Transcoder p))
            | _ \<Rightarrow> Inl (TypeError ''stream.pipe is not a function'', p))
      else Inr p)"

definition arbitraryStream ::
  "(jsnum \<Rightarrow> string) \<Rightarrow> jsval \<Rightarrow> StreamOptions option \<Rightarrow> (error + stage) \<times> pipeline" where
  "arbitraryStream toString stream options0 =
     (if \<not> truthy stream then (Inl (Error ''No stream source provided''), no_pipeline)
      else
        let options = nullish_default options0;
            FFmpegArgs = arbitraryStream_args toString stream options;
            p1 = construct Transcoder (FFmpeg FFmpegArgs) no_pipeline
        in case feed_input stream p1 of
             Inl (e, p2) \<Rightarrow> (Inl e, p2)
           | Inr p2 \<Rightarrow>
               if \<not> truthy (opusEncoded options)
               then (Inr Transcoder, on Transcoder ''close'' [Destroy Transcoder] p2)
               else
                 let p3 = construct Encoder (OpusEncoder 48000 2 960) p2;
                     p4 = pipe Transcoder Encoder p3;
                     p5 = on Encoder ''close'' [Destroy Transcoder, Destroy Encoder] p4
                 in (Inr Encoder, p5))"

section \<open>Emitting an event\<close>

text \<open>
  \<^verbatim>\<open>emit\<close> calls the listeners registered for the event on that stage, in the order
  of registration, each to completion before the next. What a call of \<^verbatim>\<open>emit\<close> makes
  happen is returned as the list of effects, in order: the event itself, then whatever its
  listeners emit or destroy. Listeners may emit in turn, so the depth of nested emits is
  bounded by fuel, and \<open>None\<close> is a nesting deeper than the fuel. Only the listeners this
  code registers are in the pipeline; those that the collaborators register for themselves
  (the data flow of \<^verbatim>\<open>pipe\<close>) are not.
\<close>

datatype effect = Emitted stage string "jsval list" | Destroyed stage

definition handlers :: "(stage \<times> string \<times> action list) list \<Rightarrow> stage \<Rightarrow> string \<Rightarrow> action list" where
  "handlers ls s event =
     concat (map (\<lambda>(s', event', body). if s' = s \<and> event' = event then body else []) ls)"

fun first_arg :: "jsval list \<Rightarrow> jsval list" where
  "first_arg [] = [Undefined]"
| "first_arg (e # rest) = [e]"

fun run_actions ::
  "(stage \<Rightarrow> string \<Rightarrow> jsval list \<Rightarrow> effect list option) \<Rightarrow> action list \<Rightarrow> jsval list
     \<Rightarrow> effect list option" where
  "run_actions em [] args = Some []"
| "run_actions em (a # rest) args =
     (case (case a of
              Emit d event \<Rightarrow> em d event args
            | EmitFirst d event \<Rightarrow> em d event (first_arg args)
            | Destroy d \<Rightarrow> Some [Destroyed d]) of
        None \<Rightarrow> None
      | Some t \<Rightarrow>
          (case run_actions em rest args of
             None \<Rightarrow> None
           | Some t' \<Rightarrow> Some (t @ t')))"

fun emit ::
  "nat \<Rightarrow> (stage \<times> string \<times> action list) list \<Rightarrow> stage \<Rightarrow> string \<Rightarrow> jsval list
     \<Rightarrow> effect list option" where
  "emit 0 ls s event args = None"
| "emit (Suc fuel) ls s event args =
     (case run_actions (emit fuel ls) (handlers ls s event) args of
        None \<Rightarrow> None
      | Some t \<Rightarrow> Some (Emitted s event args # t))"

text \<open>A sequence of events raised on one stage, one after the other.\<close>

fun emit_all ::
  "nat \<Rightarrow> (stage \<times> string \<times> action list) list \<Rightarrow> stage \<Rightarrow> (string \<times> jsval list) list
     \<Rightarrow> effect list option" where
  "emit_all fuel ls s [] = Some []"
| "emit_all fuel ls s ((event, args) # rest) =
     (case emit fuel ls s event args of
        None \<Rightarrow> None
      | Some t \<Rightarrow>
          (case emit_all fuel ls s rest of
             None \<Rightarrow> None
           | Some t' \<Rightarrow> Some (t @ t')))"

text \<open>The events a consumer listening on stage \<open>s\<close> sees, in order.\<close>

fun observed :: "stage \<Rightarrow> effect list \<Rightarrow> (string \<times> jsval list) list" where
  "observed s [] = []"
| "observed s (Emitted s' event args # t) =
     (if s' = s then (event, args) # observed s t else observed s t)"
| "observed s (Destroyed d # t) = observed s t"

section \<open>Properties of the argument lists\<close>

lemma concat_encoderArgs_append:
  "concat_encoderArgs options xs = xs @ concat_encoderArgs options []"
  by (cases "encoderArgs options") (simp_all add: concat_encoderArgs_def)

lemma unshift_seek_Some:
  "seek options = Some n \<Longrightarrow> n \<noteq> NaN \<Longrightarrow>
   unshift_seek toString options xs = ''-ss'' # toString n # xs"
  by (simp add: unshift_seek_def)

lemma unshift_seek_None:
  "unshift_seek toString (options\<lparr>seek := None\<rparr>) xs = xs"
  by (simp add: unshift_seek_def)

lemma concat_encoderArgs_seek_update:
  "concat_encoderArgs (options\<lparr>seek := s\<rparr>) xs = concat_encoderArgs options xs"
  by (simp add: concat_encoderArgs_def)

lemma common_args_seek_update:
  "common_args (options\<lparr>seek := s\<rparr>) = common_args options"
  by (simp add: common_args_def)

lemma arbitraryStream_base_seek_update:
  "arbitraryStream_base stream (options\<lparr>seek := s\<rparr>) = arbitraryStream_base stream options"
  by (simp add: arbitraryStream_base_def common_args_seek_update)

lemma common_args_encoderArgs_update:
  "common_args (options\<lparr>encoderArgs := v\<rparr>) = common_args options"
  by (simp add: common_args_def)

lemma arbitraryStream_base_encoderArgs_update:
  "arbitraryStream_base stream (options\<lparr>encoderArgs := v\<rparr>) = arbitraryStream_base stream options"
  by (simp add: arbitraryStream_base_def common_args_encoderArgs_update)

lemma unshift_seek_encoderArgs_update:
  "unshift_seek toString (options\<lparr>encoderArgs := v\<rparr>) xs = unshift_seek toString options xs"
  by (simp add: unshift_seek_def)

lemma concat_encoderArgs_non_list:
  "\<not> isArray v \<Longrightarrow> concat_encoderArgs (options\<lparr>encoderArgs := v\<rparr>) xs = xs"
  by (simp add: concat_encoderArgs_def)

text \<open>
  Claim C4. For every configuration whose \<open>seek\<close> is a number other than NaN, both
  argument lists begin with \<^verbatim>\<open>-ss\<close> and the rendering of \<open>seek\<close>, followed by the
  whole list that the same configuration without \<open>seek\<close> gives: in particular the
  reconnect flags and the input flag \<^verbatim>\<open>-i\<close> of \<^verbatim>\<open>arbitraryStream\<close> come after them.
\<close>

theorem seek_placed_first:
  assumes "seek options = Some n" and "n \<noteq> NaN"
  shows "StreamDownloader_args toString options =
           ''-ss'' # toString n # StreamDownloader_args toString (options\<lparr>seek := None\<rparr>)
       \<and> arbitraryStream_args toString stream options =
           ''-ss'' # toString n # arbitraryStream_args toString stream (options\<lparr>seek := None\<rparr>)
       \<and> arbitraryStream_args toString (Str u) options =
           [''-ss'', toString n, ''-reconnect'', ''1'', ''-reconnect_streamed'', ''1'',
            ''-reconnect_delay_max'', ''5'', ''-i'', u]
           @ common_args options @ concat_encoderArgs options []
       \<and> arbitraryStream_args toString (Buffer bs) options =
           [''-ss'', toString n] @ common_args options @ [''-i'', ''-'']
           @ concat_encoderArgs options []"
proof -
  have sd: "StreamDownloader_args toString options =
           ''-ss'' # toString n # StreamDownloader_args toString (options\<lparr>seek := None\<rparr>)"
    unfolding StreamDownloader_args_def
    by (subst concat_encoderArgs_append, subst (2) concat_encoderArgs_append)
       (simp add: unshift_seek_Some [OF assms] unshift_seek_None
          concat_encoderArgs_seek_update common_args_seek_update)
  have as: "arbitraryStream_args toString s options =
           ''-ss'' # toString n # arbitraryStream_args toString s (options\<lparr>seek := None\<rparr>)" for s
    unfolding arbitraryStream_args_def
    by (subst concat_encoderArgs_append, subst (2) concat_encoderArgs_append)
       (simp add: unshift_seek_Some [OF assms] unshift_seek_None
          concat_encoderArgs_seek_update arbitraryStream_base_seek_update)
  have url: "arbitraryStream_args toString (Str u) options =
           [''-ss'', toString n, ''-reconnect'', ''1'', ''-reconnect_streamed'', ''1'',
            ''-reconnect_delay_max'', ''5'', ''-i'', u]
           @ common_args options @ concat_encoderArgs options []"
    unfolding arbitraryStream_args_def
    by (subst concat_encoderArgs_append)
       (simp add: unshift_seek_Some [OF assms] arbitraryStream_base_def)
  have buf: "arbitraryStream_args toString (Buffer bs) options =
           [''-ss'', toString n] @ common_args options @ [''-i'', ''-'']
           @ concat_encoderArgs options []"
    unfolding arbitraryStream_args_def
    by (subst concat_encoderArgs_append)
       (simp add: unshift_seek_Some [OF assms] arbitraryStream_base_def)
  from sd as url buf show ?thesis by blast
qed

theorem seek_placed_first_witness:
  "seek (empty_options\<lparr>seek := Some (Finite 5)\<rparr>) = Some (Finite 5) \<and> Finite 5 \<noteq> NaN
   \<and> StreamDownloader_args (\<lambda>n. ''5'') (empty_options\<lparr>seek := Some (Finite 5)\<rparr>) =
       [''-ss'', ''5'', ''-analyzeduration'', ''0'', ''-loglevel'', ''0'', ''-f'', ''s16le'',
        ''-ar'', ''48000'', ''-ac'', ''2'']
   \<and> arbitraryStream_args (\<lambda>n. ''5'') (Str ''https://stream/kpop'')
        (empty_options\<lparr>seek := Some (Finite 5)\<rparr>) =
       [''-ss'', ''5'', ''-reconnect'', ''1'', ''-reconnect_streamed'', ''1'',
        ''-reconnect_delay_max'', ''5'', ''-i'', ''https://stream/kpop'',
        ''-analyzeduration'', ''0'', ''-loglevel'', ''0'', ''-f'', ''s16le'',
        ''-ar'', ''48000'', ''-ac'', ''2'']"
  using seek_placed_first [of "empty_options\<lparr>seek := Some (Finite 5)\<rparr>" "Finite 5"
      "\<lambda>n. ''5''" "Str ''https://stream/kpop''" "''https://stream/kpop''" "[]"]
  by (simp add: empty_options_def StreamDownloader_args_def arbitraryStream_args_def
      concat_encoderArgs_def unshift_seek_def common_args_def fmt_or_default_def
      arbitraryStream_base_def)

text \<open>
  Claim C5. The call
  \<^verbatim>\<open>arbitraryStream("https://stream/kpop", {fmt: "mp3", encoderArgs: ["-af","asetrate=44100*1.25"]})\<close>
  builds exactly the argument list of the scenario, constructs the transcoder with it and
  returns the transcoder: no encoder is constructed and nothing is piped.
\<close>

theorem kpop_scenario:
  "arbitraryStream_args toString (Str ''https://stream/kpop'')
     \<lparr>seek = None, encoderArgs = Arr [''-af'', ''asetrate=44100*1.25''], fmt = Str ''mp3'',
      opusEncoded = Undefined\<rparr> =
     [''-reconnect'', ''1'', ''-reconnect_streamed'', ''1'', ''-reconnect_delay_max'', ''5'',
      ''-i'', ''https://stream/kpop'', ''-analyzeduration'', ''0'', ''-loglevel'', ''0'',
      ''-f'', ''mp3'', ''-ar'', ''48000'', ''-ac'', ''2'', ''-af'', ''asetrate=44100*1.25'']
   \<and> arbitraryStream toString (Str ''https://stream/kpop'')
     (Some \<lparr>seek = None, encoderArgs = Arr [''-af'', ''asetrate=44100*1.25''], fmt = Str ''mp3'',
      opusEncoded = Undefined\<rparr>) =
     (Inr Transcoder,
      \<lparr>constructed =
         [(Transcoder, FFmpeg
           [''-reconnect'', ''1'', ''-reconnect_streamed'', ''1'', ''-reconnect_delay_max'', ''5'',
            ''-i'', ''https://stream/kpop'', ''-analyzeduration'', ''0'', ''-loglevel'', ''0'',
            ''-f'', ''mp3'', ''-ar'', ''48000'', ''-ac'', ''2'', ''-af'', ''asetrate=44100*1.25''])],
       pipes = [],
       listeners = [(Transcoder, ''close'', [Destroy Transcoder])]\<rparr>)"
  by (simp add: arbitraryStream_def arbitraryStream_args_def arbitraryStream_base_def
      concat_encoderArgs_def unshift_seek_def common_args_def fmt_or_default_def
      feed_input_def construct_def on_def no_pipeline_def)

text \<open>
  Claim C8. An \<open>encoderArgs\<close> that is not a list is ignored: both argument lists are
  the ones built from the same configuration with \<open>encoderArgs\<close> absent.
\<close>

theorem non_list_encoderArgs_ignored:
  assumes "\<not> isArray v"
  shows "StreamDownloader_args toString (options\<lparr>encoderArgs := v\<rparr>) =
           StreamDownloader_args toString (options\<lparr>encoderArgs := Undefined\<rparr>)
       \<and> arbitraryStream_args toString stream (options\<lparr>encoderArgs := v\<rparr>) =
           arbitraryStream_args toString stream (options\<lparr>encoderArgs := Undefined\<rparr>)"
proof -
  have undef: "\<not> isArray Undefined" by simp
  show ?thesis
    unfolding StreamDownloader_args_def arbitraryStream_args_def
    by (simp only: concat_encoderArgs_non_list [OF assms] concat_encoderArgs_non_list [OF undef]
        unshift_seek_encoderArgs_update common_args_encoderArgs_update
        arbitraryStream_base_encoderArgs_update simp_thms)
qed

theorem non_list_encoderArgs_ignored_witness:
  "\<not> isArray (Str ''-af bass=g=10'')
   \<and> StreamDownloader_args (\<lambda>n. ''3'')
       \<lparr>seek = Some (Finite 3), encoderArgs = Str ''-af bass=g=10'', fmt = Undefined,
        opusEncoded = Bool True\<rparr> =
     [''-ss'', ''3'', ''-analyzeduration'', ''0'', ''-loglevel'', ''0'', ''-f'', ''s16le'',
      ''-ar'', ''48000'', ''-ac'', ''2'']
   \<and> arbitraryStream_args (\<lambda>n. ''3'') (Buffer [1, 2])
       \<lparr>seek = Some (Finite 3), encoderArgs = Str ''-af bass=g=10'', fmt = Undefined,
        opusEncoded = Bool True\<rparr> =
     [''-ss'', ''3'', ''-analyzeduration'', ''0'', ''-loglevel'', ''0'', ''-f'', ''s16le'',
      ''-ar'', ''48000'', ''-ac'', ''2'', ''-i'', ''-'']"
  using non_list_encoderArgs_ignored [of "Str ''-af bass=g=10''" "\<lambda>n. ''3''"
      "\<lparr>seek = Some (Finite 3), encoderArgs = Undefined, fmt = Undefined,
        opusEncoded = Bool True\<rparr>" "Buffer [1, 2]"]
  by (simp add: StreamDownloader_args_def arbitraryStream_args_def concat_encoderArgs_def
      unshift_seek_def common_args_def arbitraryStream_base_def fmt_or_default_def)

section \<open>Properties of the pipelines\<close>

lemma listeners_relay_events:
  "listeners (relay_events evs src dst p) =
     listeners p @ map (\<lambda>e. (src, e, [Emit dst e])) evs"
  by (induction evs arbitrary: p) (simp_all add: on_def)

lemma constructed_relay_events:
  "constructed (relay_events evs src dst p) = constructed p"
  by (induction evs arbitrary: p) (simp_all add: on_def)

lemma pipes_relay_events:
  "pipes (relay_events evs src dst p) = pipes p"
  by (induction evs arbitrary: p) (simp_all add: on_def)

lemma handlers_Nil: "handlers [] s event = []"
  by (simp add: handlers_def)

lemma handlers_Cons:
  "handlers ((s', event', body) # ls) s event =
     (if s' = s \<and> event' = event then body else []) @ handlers ls s event"
  by (simp add: handlers_def)

lemma handlers_append:
  "handlers (ls @ ls') s event = handlers ls s event @ handlers ls' s event"
  by (simp add: handlers_def)

lemma handlers_relay_other:
  "s \<noteq> src \<Longrightarrow> handlers (map (\<lambda>e. (src, e, [Emit dst e])) evs) s event = []"
  by (induction evs) (simp_all add: handlers_Nil handlers_Cons)

lemma handlers_relay_absent:
  "event \<notin> set evs \<Longrightarrow> handlers (map (\<lambda>e. (src, e, [Emit dst e])) evs) s event = []"
  by (induction evs) (auto simp: handlers_Nil handlers_Cons)

lemma handlers_relay_present:
  "distinct evs \<Longrightarrow> event \<in> set evs \<Longrightarrow>
   handlers (map (\<lambda>e. (src, e, [Emit dst e])) evs) src event = [Emit dst event]"
  by (induction evs) (auto simp: handlers_Nil handlers_Cons handlers_relay_absent)

lemma distinct_evn: "distinct evn"
  by (simp add: evn_def)

lemma close_not_in_evn: "''close'' \<notin> set evn"
  by (simp add: evn_def)

lemma error_in_evn: "''error'' \<in> set evn"
  by (simp add: evn_def)

lemma observed_append: "observed s (t @ t') = observed s t @ observed s t'"
  by (induction s t rule: observed.induct) simp_all

text \<open>The pipeline \<^verbatim>\<open>StreamDownloader\<close> builds, in each of its two branches.\<close>

lemma StreamDownloader_shape:
  assumes "StreamDownloader toString url options0 = (Inr out, p)"
  shows "truthy url \<and> typeof url = ''string'' \<and>
    (if truthy (opusEncoded (nullish_default options0))
     then out = Encoder \<and>
       constructed p =
         [(Transcoder, FFmpeg (StreamDownloader_args toString (nullish_default options0))),
          (InputStream, Ytdl (text_of url) (nullish_default options0)),
          (Encoder, OpusEncoder 48000 2 960)] \<and>
       pipes p = [(InputStream, Transcoder), (Transcoder, Encoder)] \<and>
       listeners p =
         (Transcoder, ''error'', [EmitFirst Encoder ''error''])
         # map (\<lambda>e. (InputStream, e, [Emit Encoder e])) evn
         @ [(Encoder, ''close'', [Destroy Transcoder, Destroy Encoder])]
     else out = Transcoder \<and>
       constructed p =
         [(Transcoder, FFmpeg (StreamDownloader_args toString (nullish_default options0))),
          (InputStream, Ytdl (text_of url) (nullish_default options0))] \<and>
       pipes p = [(InputStream, Transcoder)] \<and>
       listeners p =
         map (\<lambda>e. (InputStream, e, [Emit Transcoder e])) evn
         @ [(InputStream, ''error'', [Destroy Transcoder]),
            (Transcoder, ''close'', [Destroy Transcoder])])"
  using assms
  by (auto simp: StreamDownloader_def Let_def listeners_relay_events constructed_relay_events
      pipes_relay_events on_def pipe_def construct_def no_pipeline_def split: if_splits)

lemma StreamDownloader_returns:
  assumes "truthy url" and "typeof url = ''string''"
  shows "\<exists>out p. StreamDownloader toString url options0 = (Inr out, p)"
  using assms by (simp add: StreamDownloader_def Let_def)

text \<open>The pipeline \<^verbatim>\<open>arbitraryStream\<close> builds.\<close>

lemma arbitraryStream_shape:
  assumes "arbitraryStream toString stream options0 = (Inr out, p)"
  shows "truthy stream \<and>
    out = (if truthy (opusEncoded (nullish_default options0)) then Encoder else Transcoder) \<and>
    constructed p =
      [(Transcoder, FFmpeg (arbitraryStream_args toString stream (nullish_default options0)))]
      @ (case stream of Buffer bs \<Rightarrow> [(InputStream, ReadableFrom bs)] | _ \<Rightarrow> [])
      @ (if truthy (opusEncoded (nullish_default options0))
         then [(Encoder, OpusEncoder 48000 2 960)] else []) \<and>
    pipes p =
      (if typeof stream = ''string'' then [] else [(InputStream, Transcoder)])
      @ (if truthy (opusEncoded (nullish_default options0))
         then [(Transcoder, Encoder)] else []) \<and>
    listeners p =
      (if typeof stream = ''string'' then [] else [(InputStream, ''error'', [Destroy Transcoder])])
      @ (if truthy (opusEncoded (nullish_default options0))
         then [(Encoder, ''close'', [Destroy Transcoder, Destroy Encoder])]
         else [(Transcoder, ''close'', [Destroy Transcoder])])"
  using assms
  by (cases stream)
     (auto simp: arbitraryStream_def feed_input_def Let_def on_def pipe_def construct_def
        no_pipeline_def split: if_splits)


lemma source_relays_one_event:
  assumes built: "StreamDownloader toString url options0 = (Inr out, p)"
    and ev: "event \<in> set evn"
  shows "\<exists>t. emit (Suc (Suc fuel)) (listeners p) InputStream event args = Some t
           \<and> observed out t = [(event, args)]"
proof (cases "truthy (opusEncoded (nullish_default options0))")
  case True
  with StreamDownloader_shape [OF built]
  have out: "out = Encoder"
    and ls: "listeners p =
         (Transcoder, ''error'', [EmitFirst Encoder ''error''])
         # map (\<lambda>e. (InputStream, e, [Emit Encoder e])) evn
         @ [(Encoder, ''close'', [Destroy Transcoder, Destroy Encoder])]"
    by simp_all
  have src: "handlers (listeners p) InputStream event = [Emit Encoder event]"
    by (simp add: ls handlers_Cons handlers_append handlers_Nil
        handlers_relay_present [OF distinct_evn ev])
  have "event \<noteq> ''close''"
    using ev close_not_in_evn by auto
  then have dst: "handlers (listeners p) Encoder event = []"
    by (simp add: ls handlers_Cons handlers_append handlers_Nil handlers_relay_other)
  show ?thesis
    by (simp add: src dst out)
next
  case False
  with StreamDownloader_shape [OF built]
  have out: "out = Transcoder"
    and ls: "listeners p =
         map (\<lambda>e. (InputStream, e, [Emit Transcoder e])) evn
         @ [(InputStream, ''error'', [Destroy Transcoder]),
            (Transcoder, ''close'', [Destroy Transcoder])]"
    by simp_all
  have src: "handlers (listeners p) InputStream event =
      Emit Transcoder event # (if event = ''error'' then [Destroy Transcoder] else [])"
    by (simp add: ls handlers_Cons handlers_append handlers_Nil
        handlers_relay_present [OF distinct_evn ev])
  have "event \<noteq> ''close''"
    using ev close_not_in_evn by auto
  then have dst: "handlers (listeners p) Transcoder event = []"
    by (simp add: ls handlers_Cons handlers_append handlers_Nil handlers_relay_other)
  show ?thesis
    by (simp add: src dst out)
qed

text \<open>
  Claim C1, for \<^verbatim>\<open>StreamDownloader\<close> (the entry point \<^verbatim>\<open>source\<close>), which is
  where events are relayed. Whatever sequence of ytdl events the input stream raises, each with
  any arguments, the returned stream (the transcoder, or the encoder when
  \<open>opusEncoded\<close> is truthy) emits the same events with the same arguments in the same
  order, for any fuel from two on.
\<close>

theorem source_relays_lifecycle_events:
  assumes built: "StreamDownloader toString url options0 = (Inr out, p)"
    and evs: "\<forall>e \<in> set events. fst e \<in> set evn"
  shows "\<exists>t. emit_all (Suc (Suc fuel)) (listeners p) InputStream events = Some t
           \<and> observed out t = events"
  using evs
proof (induction events)
  case Nil
  show ?case by simp
next
  case (Cons e rest)
  obtain event args where e: "e = (event, args)"
    by (cases e)
  from Cons.prems e have "event \<in> set evn"
    by simp
  from source_relays_one_event [OF built this]
  obtain t where t: "emit (Suc (Suc fuel)) (listeners p) InputStream event args = Some t"
    "observed out t = [(event, args)]"
    by blast
  from Cons.IH Cons.prems
  obtain t' where t': "emit_all (Suc (Suc fuel)) (listeners p) InputStream rest = Some t'"
    "observed out t' = rest"
    by auto
  show ?case
    using t t' by (simp add: e observed_append del: emit.simps)
qed

theorem source_relays_lifecycle_events_witness:
  "''info'' \<in> set evn \<and> ''progress'' \<in> set evn \<and> ''error'' \<in> set evn
   \<and> fst (StreamDownloader (\<lambda>n. ''5'') (Str ''https://example/video'')
        (Some (empty_options\<lparr>seek := Some (Finite 5), opusEncoded := Bool True\<rparr>))) = Inr Encoder
   \<and> (\<exists>t. emit_all 2
         (listeners (snd (StreamDownloader (\<lambda>n. ''5'') (Str ''https://example/video'')
            (Some (empty_options\<lparr>seek := Some (Finite 5), opusEncoded := Bool True\<rparr>)))))
         InputStream
         [(''info'', [Obj, Obj]), (''progress'', [Num (Finite 16384)]), (''error'', [Obj])]
         = Some t
       \<and> observed Encoder t =
         [(''info'', [Obj, Obj]), (''progress'', [Num (Finite 16384)]), (''error'', [Obj])])"
proof -
  obtain p where built:
    "StreamDownloader (\<lambda>n. ''5'') (Str ''https://example/video'')
        (Some (empty_options\<lparr>seek := Some (Finite 5), opusEncoded := Bool True\<rparr>)) = (Inr Encoder, p)"
    by (simp add: StreamDownloader_def Let_def empty_options_def)
  have names: "\<forall>e \<in> set [(''info'', [Obj, Obj]), (''progress'', [Num (Finite 16384)]),
                 (''error'', [Obj])]. fst e \<in> set evn"
    by (simp add: evn_def)
  have two: "Suc (Suc 0) = 2"
    by simp
  have each: "''info'' \<in> set evn \<and> ''progress'' \<in> set evn \<and> ''error'' \<in> set evn"
    by (simp add: evn_def)
  show ?thesis
    using source_relays_lifecycle_events [OF built names, of 0] each
    by (simp only: built fst_conv snd_conv two simp_thms)
qed

text \<open>
  \<^verbatim>\<open>arbitraryStream\<close> registers no relay: an \<^verbatim>\<open>info\<close> raised by the caller's stream
  reaches no listener, and the returned transcoder emits nothing.
\<close>

theorem arbitraryStream_relays_nothing:
  "''info'' \<in> set evn
   \<and> fst (arbitraryStream (\<lambda>n. []) Stream None) = Inr Transcoder
   \<and> emit_all 2 (listeners (snd (arbitraryStream (\<lambda>n. []) Stream None))) InputStream
       [(''info'', [Obj])] = Some [Emitted InputStream ''info'' [Obj]]
   \<and> observed Transcoder [Emitted InputStream ''info'' [Obj]] = []"
  by (simp add: evn_def arbitraryStream_def feed_input_def Let_def on_def pipe_def construct_def
      no_pipeline_def empty_options_def handlers_def numeral_2_eq_2)

text \<open>Every call with a valid input returns a stream.\<close>

lemma arbitraryStream_returns:
  assumes "truthy input"
    and "typeof input = ''string'' \<or> instanceof_Buffer input \<or> input = Stream"
  shows "\<exists>out p. arbitraryStream toString input options0 = (Inr out, p)"
  using assms
  by (cases input)
     (simp_all add: arbitraryStream_def feed_input_def Let_def)

text \<open>What \<^verbatim>\<open>close\<close> on the returned stream of either entry point makes happen.\<close>

lemma returned_close_effects:
  assumes "StreamDownloader toString input options0 = (Inr out, p)
         \<or> arbitraryStream toString input options0 = (Inr out, p)"
  shows "emit (Suc fuel) (listeners p) out ''close'' args =
           Some (Emitted out ''close'' args # Destroyed Transcoder
                 # (if Encoder \<in> fst ` set (constructed p) then [Destroyed Encoder] else []))
       \<and> (Encoder \<in> fst ` set (constructed p)) = truthy (opusEncoded (nullish_default options0))"
  using assms
proof
  assume built: "StreamDownloader toString input options0 = (Inr out, p)"
  show ?thesis
  proof (cases "truthy (opusEncoded (nullish_default options0))")
    case True
    with StreamDownloader_shape [OF built] show ?thesis
      by (simp add: handlers_Cons handlers_append handlers_Nil handlers_relay_other)
  next
    case False
    with StreamDownloader_shape [OF built] show ?thesis
      by (simp add: handlers_Cons handlers_append handlers_Nil handlers_relay_other)
  qed
next
  assume built: "arbitraryStream toString input options0 = (Inr out, p)"
  show ?thesis
  proof (cases "truthy (opusEncoded (nullish_default options0))")
    case True
    with arbitraryStream_shape [OF built] show ?thesis
      by (cases input) (simp_all add: handlers_Cons handlers_append handlers_Nil)
  next
    case False
    with arbitraryStream_shape [OF built] show ?thesis
      by (cases input) (simp_all add: handlers_Cons handlers_append handlers_Nil)
  qed
qed

text \<open>
  Claim C6. \<^verbatim>\<open>StreamDownloader\<close> returns a stream for every string \<open>url\<close> that is not
  empty, and \<^verbatim>\<open>arbitraryStream\<close> for every truthy input that is a string, a Buffer or a
  stream. When the stream a call returned emits \<^verbatim>\<open>close\<close>, with fuel for one emit or
  more, the transcoder's \<^verbatim>\<open>destroy\<close> is called, and then the encoder's exactly when an
  encoder was constructed, which is exactly when \<open>opusEncoded\<close> is truthy. The same
  holds for whatever call of either entry point returns.
\<close>

theorem close_destroys_stages:
  "(u \<noteq> [] \<longrightarrow>
      (\<exists>out p. StreamDownloader toString (Str u) options0 = (Inr out, p)
         \<and> emit (Suc fuel) (listeners p) out ''close'' args =
             Some (Emitted out ''close'' args # Destroyed Transcoder
                   # (if Encoder \<in> fst ` set (constructed p) then [Destroyed Encoder] else []))
         \<and> (Encoder \<in> fst ` set (constructed p))
             = truthy (opusEncoded (nullish_default options0))))
   \<and> (truthy input \<and> (typeof input = ''string'' \<or> instanceof_Buffer input \<or> input = Stream) \<longrightarrow>
      (\<exists>out p. arbitraryStream toString input options0 = (Inr out, p)
         \<and> emit (Suc fuel) (listeners p) out ''close'' args =
             Some (Emitted out ''close'' args # Destroyed Transcoder
                   # (if Encoder \<in> fst ` set (constructed p) then [Destroyed Encoder] else []))
         \<and> (Encoder \<in> fst ` set (constructed p))
             = truthy (opusEncoded (nullish_default options0))))
   \<and> (StreamDownloader toString v options0 = (Inr s, q)
        \<or> arbitraryStream toString v options0 = (Inr s, q) \<longrightarrow>
      emit (Suc fuel) (listeners q) s ''close'' args =
        Some (Emitted s ''close'' args # Destroyed Transcoder
              # (if Encoder \<in> fst ` set (constructed q) then [Destroyed Encoder] else []))
      \<and> (Encoder \<in> fst ` set (constructed q))
          = truthy (opusEncoded (nullish_default options0)))"
proof (intro conjI impI)
  assume "u \<noteq> []"
  then obtain out p where built: "StreamDownloader toString (Str u) options0 = (Inr out, p)"
    using StreamDownloader_returns [of "Str u" toString options0] by auto
  from returned_close_effects [OF disjI1, OF built] built
  show "\<exists>out p. StreamDownloader toString (Str u) options0 = (Inr out, p)
         \<and> emit (Suc fuel) (listeners p) out ''close'' args =
             Some (Emitted out ''close'' args # Destroyed Transcoder
                   # (if Encoder \<in> fst ` set (constructed p) then [Destroyed Encoder] else []))
         \<and> (Encoder \<in> fst ` set (constructed p))
             = truthy (opusEncoded (nullish_default options0))"
    by blast
next
  assume "truthy input \<and> (typeof input = ''string'' \<or> instanceof_Buffer input \<or> input = Stream)"
  then obtain out p where built: "arbitraryStream toString input options0 = (Inr out, p)"
    using arbitraryStream_returns [of input toString options0] by auto
  from returned_close_effects [OF disjI2, OF built] built
  show "\<exists>out p. arbitraryStream toString input options0 = (Inr out, p)
         \<and> emit (Suc fuel) (listeners p) out ''close'' args =
             Some (Emitted out ''close'' args # Destroyed Transcoder
                   # (if Encoder \<in> fst ` set (constructed p) then [Destroyed Encoder] else []))
         \<and> (Encoder \<in> fst ` set (constructed p))
             = truthy (opusEncoded (nullish_default options0))"
    by blast
next
  assume built: "StreamDownloader toString v options0 = (Inr s, q)
        \<or> arbitraryStream toString v options0 = (Inr s, q)"
  from returned_close_effects [OF built]
  show "emit (Suc fuel) (listeners q) s ''close'' args =
        Some (Emitted s ''close'' args # Destroyed Transcoder
              # (if Encoder \<in> fst ` set (constructed q) then [Destroyed Encoder] else []))"
    by blast
next
  assume built: "StreamDownloader toString v options0 = (Inr s, q)
        \<or> arbitraryStream toString v options0 = (Inr s, q)"
  from returned_close_effects [OF built, of 0 "[]"]
  show "(Encoder \<in> fst ` set (constructed q)) = truthy (opusEncoded (nullish_default options0))"
    by blast
qed

theorem close_destroys_stages_witness:
  "''https://example/video'' \<noteq> []
   \<and> fst (StreamDownloader (\<lambda>n. []) (Str ''https://example/video'')
        (Some (empty_options\<lparr>opusEncoded := Bool True\<rparr>))) = Inr Encoder
   \<and> emit 1 (listeners (snd (StreamDownloader (\<lambda>n. []) (Str ''https://example/video'')
        (Some (empty_options\<lparr>opusEncoded := Bool True\<rparr>))))) Encoder ''close'' [] =
       Some [Emitted Encoder ''close'' [], Destroyed Transcoder, Destroyed Encoder]
   \<and> fst (StreamDownloader (\<lambda>n. []) (Str ''https://example/video'') None) = Inr Transcoder
   \<and> emit 1 (listeners (snd (StreamDownloader (\<lambda>n. []) (Str ''https://example/video'') None)))
        Transcoder ''close'' [] =
       Some [Emitted Transcoder ''close'' [], Destroyed Transcoder]
   \<and> truthy (Buffer [73, 68, 51]) \<and> instanceof_Buffer (Buffer [73, 68, 51])
   \<and> fst (arbitraryStream (\<lambda>n. []) (Buffer [73, 68, 51])
        (Some (empty_options\<lparr>opusEncoded := Bool True\<rparr>))) = Inr Encoder
   \<and> emit 1 (listeners (snd (arbitraryStream (\<lambda>n. []) (Buffer [73, 68, 51])
        (Some (empty_options\<lparr>opusEncoded := Bool True\<rparr>))))) Encoder ''close'' [] =
       Some [Emitted Encoder ''close'' [], Destroyed Transcoder, Destroyed Encoder]
   \<and> fst (arbitraryStream (\<lambda>n. []) (Str ''https://stream/kpop'') None) = Inr Transcoder
   \<and> emit 1 (listeners (snd (arbitraryStream (\<lambda>n. []) (Str ''https://stream/kpop'') None)))
        Transcoder ''close'' [] =
       Some [Emitted Transcoder ''close'' [], Destroyed Transcoder]"
proof -
  have one: "Suc 0 = 1"
    by simp
  have o1: "fst (StreamDownloader (\<lambda>n. []) (Str ''https://example/video'')
        (Some (empty_options\<lparr>opusEncoded := Bool True\<rparr>))) = Inr Encoder"
    by (simp add: StreamDownloader_def Let_def empty_options_def)
  have o2: "fst (StreamDownloader (\<lambda>n. []) (Str ''https://example/video'') None) = Inr Transcoder"
    by (simp add: StreamDownloader_def Let_def empty_options_def)
  have o3: "fst (arbitraryStream (\<lambda>n. []) (Buffer [73, 68, 51])
        (Some (empty_options\<lparr>opusEncoded := Bool True\<rparr>))) = Inr Encoder"
    by (simp add: arbitraryStream_def feed_input_def Let_def empty_options_def)
  have o4: "fst (arbitraryStream (\<lambda>n. []) (Str ''https://stream/kpop'') None) = Inr Transcoder"
    by (simp add: arbitraryStream_def feed_input_def Let_def empty_options_def)
  have t1: "truthy (opusEncoded (nullish_default (Some (empty_options\<lparr>opusEncoded := Bool True\<rparr>))))"
    by (simp add: empty_options_def)
  have t2: "\<not> truthy (opusEncoded (nullish_default None))"
    by (simp add: empty_options_def)
  have w1: "emit 1 (listeners (snd (StreamDownloader (\<lambda>n. []) (Str ''https://example/video'')
        (Some (empty_options\<lparr>opusEncoded := Bool True\<rparr>))))) Encoder ''close'' [] =
       Some [Emitted Encoder ''close'' [], Destroyed Transcoder, Destroyed Encoder]"
  proof -
    have "''https://example/video'' \<noteq> []"
      by simp
    with close_destroys_stages [of "''https://example/video''" "\<lambda>n. []"
        "Some (empty_options\<lparr>opusEncoded := Bool True\<rparr>)" 0 "[]"]
    obtain out p where
      b: "StreamDownloader (\<lambda>n. []) (Str ''https://example/video'')
            (Some (empty_options\<lparr>opusEncoded := Bool True\<rparr>)) = (Inr out, p)"
      and e: "emit (Suc 0) (listeners p) out ''close'' [] =
            Some (Emitted out ''close'' [] # Destroyed Transcoder
                  # (if Encoder \<in> fst ` set (constructed p) then [Destroyed Encoder] else []))"
      and c: "(Encoder \<in> fst ` set (constructed p)) =
            truthy (opusEncoded (nullish_default (Some (empty_options\<lparr>opusEncoded := Bool True\<rparr>))))"
      by blast
    from o1 b have "out = Encoder" by simp
    with e c t1 b show ?thesis by (simp only: one snd_conv if_True)
  qed
  have w2: "emit 1 (listeners (snd (StreamDownloader (\<lambda>n. []) (Str ''https://example/video'') None)))
        Transcoder ''close'' [] =
       Some [Emitted Transcoder ''close'' [], Destroyed Transcoder]"
  proof -
    have "''https://example/video'' \<noteq> []"
      by simp
    with close_destroys_stages [of "''https://example/video''" "\<lambda>n. []" None 0 "[]"]
    obtain out p where
      b: "StreamDownloader (\<lambda>n. []) (Str ''https://example/video'') None = (Inr out, p)"
      and e: "emit (Suc 0) (listeners p) out ''close'' [] =
            Some (Emitted out ''close'' [] # Destroyed Transcoder
                  # (if Encoder \<in> fst ` set (constructed p) then [Destroyed Encoder] else []))"
      and c: "(Encoder \<in> fst ` set (constructed p)) =
            truthy (opusEncoded (nullish_default None))"
      by blast
    from o2 b have "out = Transcoder" by simp
    with e c t2 b show ?thesis by (simp only: one snd_conv if_False)
  qed
  have w3: "emit 1 (listeners (snd (arbitraryStream (\<lambda>n. []) (Buffer [73, 68, 51])
        (Some (empty_options\<lparr>opusEncoded := Bool True\<rparr>))))) Encoder ''close'' [] =
       Some [Emitted Encoder ''close'' [], Destroyed Transcoder, Destroyed Encoder]"
  proof -
    have "truthy (Buffer [73, 68, 51]) \<and>
        (typeof (Buffer [73, 68, 51]) = ''string'' \<or> instanceof_Buffer (Buffer [73, 68, 51])
         \<or> Buffer [73, 68, 51] = Stream)"
      by simp
    with close_destroys_stages [of _ "\<lambda>n. []"
        "Some (empty_options\<lparr>opusEncoded := Bool True\<rparr>)" 0 "[]" "Buffer [73, 68, 51]"]
    obtain out p where
      b: "arbitraryStream (\<lambda>n. []) (Buffer [73, 68, 51])
            (Some (empty_options\<lparr>opusEncoded := Bool True\<rparr>)) = (Inr out, p)"
      and e: "emit (Suc 0) (listeners p) out ''close'' [] =
            Some (Emitted out ''close'' [] # Destroyed Transcoder
                  # (if Encoder \<in> fst ` set (constructed p) then [Destroyed Encoder] else []))"
      and c: "(Encoder \<in> fst ` set (constructed p)) =
            truthy (opusEncoded (nullish_default (Some (empty_options\<lparr>opusEncoded := Bool True\<rparr>))))"
      by blast
    from o3 b have "out = Encoder" by simp
    with e c t1 b show ?thesis by (simp only: one snd_conv if_True)
  qed
  have w4: "emit 1 (listeners (snd (arbitraryStream (\<lambda>n. []) (Str ''https://stream/kpop'') None)))
        Transcoder ''close'' [] =
       Some [Emitted Transcoder ''close'' [], Destroyed Transcoder]"
  proof -
    have "truthy (Str ''https://stream/kpop'') \<and>
        (typeof (Str ''https://stream/kpop'') = ''string''
         \<or> instanceof_Buffer (Str ''https://stream/kpop'')
         \<or> Str ''https://stream/kpop'' = Stream)"
      by simp
    with close_destroys_stages [of _ "\<lambda>n. []" None 0 "[]" "Str ''https://stream/kpop''"]
    obtain out p where
      b: "arbitraryStream (\<lambda>n. []) (Str ''https://stream/kpop'') None = (Inr out, p)"
      and e: "emit (Suc 0) (listeners p) out ''close'' [] =
            Some (Emitted out ''close'' [] # Destroyed Transcoder
                  # (if Encoder \<in> fst ` set (constructed p) then [Destroyed Encoder] else []))"
      and c: "(Encoder \<in> fst ` set (constructed p)) =
            truthy (opusEncoded (nullish_default None))"
      by blast
    from o4 b have "out = Transcoder" by simp
    with e c t2 b show ?thesis by (simp only: one snd_conv if_False)
  qed
  from o1 o2 o3 o4 w1 w2 w3 w4 show ?thesis
    by simp
qed

text \<open>
  What an \<^verbatim>\<open>error\<close> of the input stream does where a listener for it destroys the
  transcoder: \<^verbatim>\<open>StreamDownloader\<close> without \<open>opusEncoded\<close> (line 89) and
  \<^verbatim>\<open>arbitraryStream\<close> with a piped input (line 193).
\<close>

lemma source_plain_input_error_destroys:
  assumes built: "StreamDownloader toString url options0 = (Inr out, p)"
    and plain: "\<not> truthy (opusEncoded (nullish_default options0))"
  shows "emit (Suc (Suc fuel)) (listeners p) InputStream ''error'' args =
     Some [Emitted InputStream ''error'' args, Emitted Transcoder ''error'' args,
           Destroyed Transcoder]"
  using StreamDownloader_shape [OF built] plain
  by (simp add: handlers_Cons handlers_append handlers_Nil handlers_relay_other
      handlers_relay_present [OF distinct_evn error_in_evn])

lemma arbitraryStream_input_error_destroys:
  assumes built: "arbitraryStream toString stream options0 = (Inr out, p)"
    and piped: "typeof stream \<noteq> ''string''"
  shows "emit (Suc fuel) (listeners p) InputStream ''error'' args =
     Some [Emitted InputStream ''error'' args, Destroyed Transcoder]"
  using arbitraryStream_shape [OF built] piped
  by (simp add: handlers_Cons handlers_append handlers_Nil)

text \<open>
  Claim C2, at the input where the code departs from it:
  \<^verbatim>\<open>source("https://example/video", {opusEncoded: true})\<close>. The branch that builds the
  encoder registers no listener that destroys the transcoder when the input stream
  errors: the error is relayed to the encoder and no \<^verbatim>\<open>destroy\<close> is called, whatever
  the fuel.
\<close>

theorem source_opus_input_error_no_destroy:
  "fst (StreamDownloader toString (Str ''https://example/video'')
          (Some (empty_options\<lparr>opusEncoded := Bool True\<rparr>))) = Inr Encoder
   \<and> emit (Suc (Suc fuel))
       (listeners (snd (StreamDownloader toString (Str ''https://example/video'')
          (Some (empty_options\<lparr>opusEncoded := Bool True\<rparr>)))))
       InputStream ''error'' [Obj] =
     Some [Emitted InputStream ''error'' [Obj], Emitted Encoder ''error'' [Obj]]"
  by (simp add: StreamDownloader_def Let_def on_def pipe_def construct_def
      no_pipeline_def empty_options_def evn_def handlers_def)

text \<open>
  What an \<^verbatim>\<open>error\<close> of the transcoder does in \<^verbatim>\<open>StreamDownloader\<close> with
  \<open>opusEncoded\<close> (line 102): it is emitted on the encoder with its first argument.
\<close>

lemma source_opus_transcoder_error_relayed:
  assumes built: "StreamDownloader toString url options0 = (Inr out, p)"
    and opus: "truthy (opusEncoded (nullish_default options0))"
  shows "emit (Suc (Suc fuel)) (listeners p) Transcoder ''error'' (e # rest) =
     Some [Emitted Transcoder ''error'' (e # rest), Emitted Encoder ''error'' [e]]"
  using StreamDownloader_shape [OF built] opus
  by (simp add: handlers_Cons handlers_append handlers_Nil handlers_relay_other)

text \<open>
  Claim C3, at the input where the code departs from it:
  \<^verbatim>\<open>arbitraryStream("https://stream/kpop", {opusEncoded: true})\<close>. No listener is
  registered for the transcoder's \<^verbatim>\<open>error\<close>, so the encoder, which is the stream
  returned, emits nothing.
\<close>

theorem arbitraryStream_opus_transcoder_error_dropped:
  "fst (arbitraryStream toString (Str ''https://stream/kpop'')
          (Some (empty_options\<lparr>opusEncoded := Bool True\<rparr>))) = Inr Encoder
   \<and> emit (Suc fuel)
       (listeners (snd (arbitraryStream toString (Str ''https://stream/kpop'')
          (Some (empty_options\<lparr>opusEncoded := Bool True\<rparr>)))))
       Transcoder ''error'' [Obj] =
     Some [Emitted Transcoder ''error'' [Obj]]"
  by (simp add: arbitraryStream_def feed_input_def Let_def on_def pipe_def construct_def
      no_pipeline_def empty_options_def handlers_def)

section \<open>Buffer input and validation\<close>

lemma buffer_args_structure:
  "arbitraryStream_args toString (Buffer bs) options =
     unshift_seek toString options [] @ common_args options @ [''-i'', ''-'']
     @ concat_encoderArgs options []"
  unfolding arbitraryStream_args_def
  by (subst concat_encoderArgs_append)
     (simp add: arbitraryStream_base_def unshift_seek_def split: option.splits)

lemma buffer_args_contain_stdin:
  "\<exists>pre post. arbitraryStream_args toString (Buffer bs) options = pre @ [''-i'', ''-''] @ post"
proof -
  have "arbitraryStream_args toString (Buffer bs) options =
      (unshift_seek toString options [] @ common_args options) @ [''-i'', ''-'']
      @ concat_encoderArgs options []"
    by (simp add: buffer_args_structure)
  then show ?thesis by blast
qed

lemma arbitraryStream_buffer:
  "\<exists>p. arbitraryStream toString (Buffer bs) options0 =
         (Inr (if truthy (opusEncoded (nullish_default options0)) then Encoder else Transcoder), p)
       \<and> (Transcoder,
           FFmpeg (arbitraryStream_args toString (Buffer bs) (nullish_default options0)))
           \<in> set (constructed p)
       \<and> (InputStream, ReadableFrom bs) \<in> set (constructed p)
       \<and> (InputStream, Transcoder) \<in> set (pipes p)"
  by (simp add: arbitraryStream_def feed_input_def Let_def on_def pipe_def construct_def
      no_pipeline_def)

lemma falsy_values:
  "(\<not> truthy v) =
     (v \<in> {Undefined, Null, Bool False, Num NaN, Num (Finite 0), BigInt 0, Str []})"
  by (cases v) auto

lemma common_args_reconnect:
  "(set (common_args options) \<inter> set reconnect_flags = {}) =
     (fmt_or_default (fmt options) \<notin> set reconnect_flags)"
proof -
  have fixed: "''-analyzeduration'' \<notin> set reconnect_flags" "''0'' \<notin> set reconnect_flags"
    "''-loglevel'' \<notin> set reconnect_flags" "''-f'' \<notin> set reconnect_flags"
    "''-ar'' \<notin> set reconnect_flags" "''48000'' \<notin> set reconnect_flags"
    "''-ac'' \<notin> set reconnect_flags" "''2'' \<notin> set reconnect_flags"
    by (simp_all add: reconnect_flags_def)
  show ?thesis
    using fixed by (simp add: common_args_def)
qed

lemma stdin_not_reconnect: "set [''-i'', ''-''] \<inter> set reconnect_flags = {}"
  by (simp add: reconnect_flags_def)

lemma buffer_args_reconnect:
  "(set (arbitraryStream_args toString (Buffer bs) options) \<inter> set reconnect_flags = {}) =
     (set (unshift_seek toString options []) \<inter> set reconnect_flags = {}
      \<and> fmt_or_default (fmt options) \<notin> set reconnect_flags
      \<and> set (concat_encoderArgs options []) \<inter> set reconnect_flags = {})"
  using stdin_not_reconnect
  by (simp only: buffer_args_structure set_append Int_Un_distrib2 Un_empty
      common_args_reconnect simp_thms)

text \<open>
  Claim C7, with the caller's own arguments taken into account. For every Buffer given to
  \<^verbatim>\<open>arbitraryStream\<close>, whatever the options: the argument list contains the pair
  \<^verbatim>\<open>-i\<close>, \<^verbatim>\<open>-\<close>; the call returns, having wrapped the buffer with
  \<^verbatim>\<open>Readable.from\<close> and piped that stream into the transcoder built with the list; and
  the list holds no reconnect flag exactly when no value the caller supplies is one: no
  element of a list \<open>encoderArgs\<close>, not \<open>fmt\<close>, not the rendering of a \<open>seek\<close> that
  is put in front.
\<close>

theorem buffer_input_args:
  "(\<exists>pre post. arbitraryStream_args toString (Buffer bs) (nullish_default options0) =
       pre @ [''-i'', ''-''] @ post)
   \<and> (\<exists>out p. arbitraryStream toString (Buffer bs) options0 = (Inr out, p)
        \<and> (Transcoder,
            FFmpeg (arbitraryStream_args toString (Buffer bs) (nullish_default options0)))
            \<in> set (constructed p)
        \<and> (InputStream, ReadableFrom bs) \<in> set (constructed p)
        \<and> (InputStream, Transcoder) \<in> set (pipes p))
   \<and> (set (arbitraryStream_args toString (Buffer bs) (nullish_default options0))
          \<inter> set reconnect_flags = {}) =
       (set (unshift_seek toString (nullish_default options0) []) \<inter> set reconnect_flags = {}
        \<and> fmt_or_default (fmt (nullish_default options0)) \<notin> set reconnect_flags
        \<and> set (concat_encoderArgs (nullish_default options0) []) \<inter> set reconnect_flags = {})"
proof (intro conjI)
  show "\<exists>pre post. arbitraryStream_args toString (Buffer bs) (nullish_default options0) =
       pre @ [''-i'', ''-''] @ post"
    by (rule buffer_args_contain_stdin)
next
  from arbitraryStream_buffer [of toString bs options0]
  show "\<exists>out p. arbitraryStream toString (Buffer bs) options0 = (Inr out, p)
        \<and> (Transcoder,
            FFmpeg (arbitraryStream_args toString (Buffer bs) (nullish_default options0)))
            \<in> set (constructed p)
        \<and> (InputStream, ReadableFrom bs) \<in> set (constructed p)
        \<and> (InputStream, Transcoder) \<in> set (pipes p)"
    by blast
next
  show "(set (arbitraryStream_args toString (Buffer bs) (nullish_default options0))
          \<inter> set reconnect_flags = {}) =
       (set (unshift_seek toString (nullish_default options0) []) \<inter> set reconnect_flags = {}
        \<and> fmt_or_default (fmt (nullish_default options0)) \<notin> set reconnect_flags
        \<and> set (concat_encoderArgs (nullish_default options0) []) \<inter> set reconnect_flags = {})"
    by (rule buffer_args_reconnect)
qed

theorem buffer_input_args_witness:
  "arbitraryStream_args (\<lambda>n. []) (Buffer [73, 68, 51])
       (empty_options\<lparr>encoderArgs := Arr [''-af'', ''bass=g=10'']\<rparr>) =
     [''-analyzeduration'', ''0'', ''-loglevel'', ''0'', ''-f'', ''s16le'', ''-ar'', ''48000'',
      ''-ac'', ''2'', ''-i'', ''-'', ''-af'', ''bass=g=10'']
   \<and> set (arbitraryStream_args (\<lambda>n. []) (Buffer [73, 68, 51])
       (empty_options\<lparr>encoderArgs := Arr [''-af'', ''bass=g=10'']\<rparr>)) \<inter> set reconnect_flags = {}
   \<and> (\<exists>out p. arbitraryStream (\<lambda>n. []) (Buffer [73, 68, 51])
          (Some (empty_options\<lparr>encoderArgs := Arr [''-af'', ''bass=g=10'']\<rparr>)) = (Inr out, p)
        \<and> (InputStream, ReadableFrom [73, 68, 51]) \<in> set (constructed p)
        \<and> (InputStream, Transcoder) \<in> set (pipes p))
   \<and> (\<exists>pre post. arbitraryStream_args (\<lambda>n. []) (Buffer [73, 68, 51])
          (empty_options\<lparr>encoderArgs := Arr [''-reconnect'', ''1'']\<rparr>) =
          pre @ [''-i'', ''-''] @ post)
   \<and> (\<exists>out p. arbitraryStream (\<lambda>n. []) (Buffer [73, 68, 51])
          (Some (empty_options\<lparr>encoderArgs := Arr [''-reconnect'', ''1'']\<rparr>)) = (Inr out, p)
        \<and> (InputStream, ReadableFrom [73, 68, 51]) \<in> set (constructed p)
        \<and> (InputStream, Transcoder) \<in> set (pipes p))"
proof -
  have h1: "set (concat_encoderArgs (nullish_default (Some (empty_options\<lparr>encoderArgs := Arr [''-af'', ''bass=g=10'']\<rparr>))) [])
      \<inter> set reconnect_flags = {}"
    by (simp add: concat_encoderArgs_def empty_options_def reconnect_flags_def)
  have h2: "fmt_or_default (fmt (nullish_default (Some (empty_options\<lparr>encoderArgs := Arr [''-af'', ''bass=g=10'']\<rparr>))))
      \<notin> set reconnect_flags"
    by (simp add: fmt_or_default_def empty_options_def reconnect_flags_def)
  have h3: "set (unshift_seek (\<lambda>n. [])
      (nullish_default (Some (empty_options\<lparr>encoderArgs := Arr [''-af'', ''bass=g=10'']\<rparr>))) [])
      \<inter> set reconnect_flags = {}"
    by (simp add: unshift_seek_def empty_options_def)
  have args: "arbitraryStream_args (\<lambda>n. []) (Buffer [73, 68, 51])
       (empty_options\<lparr>encoderArgs := Arr [''-af'', ''bass=g=10'']\<rparr>) =
     [''-analyzeduration'', ''0'', ''-loglevel'', ''0'', ''-f'', ''s16le'', ''-ar'', ''48000'',
      ''-ac'', ''2'', ''-i'', ''-'', ''-af'', ''bass=g=10'']"
    by (simp add: arbitraryStream_args_def arbitraryStream_base_def concat_encoderArgs_def
        unshift_seek_def common_args_def fmt_or_default_def empty_options_def)
  note clean = buffer_input_args [of "\<lambda>n. []" "[73, 68, 51]"
      "Some (empty_options\<lparr>encoderArgs := Arr [''-af'', ''bass=g=10'']\<rparr>)"]
  note flagged = buffer_input_args [of "\<lambda>n. []" "[73, 68, 51]"
      "Some (empty_options\<lparr>encoderArgs := Arr [''-reconnect'', ''1'']\<rparr>)"]
  from clean h1 h2 h3
  have none: "set (arbitraryStream_args (\<lambda>n. []) (Buffer [73, 68, 51])
       (empty_options\<lparr>encoderArgs := Arr [''-af'', ''bass=g=10'']\<rparr>)) \<inter> set reconnect_flags = {}"
    by (simp only: nullish_default.simps simp_thms)
  from clean
  have fed: "\<exists>out p. arbitraryStream (\<lambda>n. []) (Buffer [73, 68, 51])
          (Some (empty_options\<lparr>encoderArgs := Arr [''-af'', ''bass=g=10'']\<rparr>)) = (Inr out, p)
        \<and> (InputStream, ReadableFrom [73, 68, 51]) \<in> set (constructed p)
        \<and> (InputStream, Transcoder) \<in> set (pipes p)"
    by blast
  from flagged
  have pair: "\<exists>pre post. arbitraryStream_args (\<lambda>n. []) (Buffer [73, 68, 51])
          (empty_options\<lparr>encoderArgs := Arr [''-reconnect'', ''1'']\<rparr>) =
          pre @ [''-i'', ''-''] @ post"
    by (simp only: nullish_default.simps)
  from flagged
  have fed': "\<exists>out p. arbitraryStream (\<lambda>n. []) (Buffer [73, 68, 51])
          (Some (empty_options\<lparr>encoderArgs := Arr [''-reconnect'', ''1'']\<rparr>)) = (Inr out, p)
        \<and> (InputStream, ReadableFrom [73, 68, 51]) \<in> set (constructed p)
        \<and> (InputStream, Transcoder) \<in> set (pipes p)"
    by blast
  from args none fed pair fed' show ?thesis
    by (intro conjI)
qed

text \<open>
  The arguments of \<open>encoderArgs\<close> are appended as they are, reconnect flags included,
  also when the input is a Buffer.
\<close>

theorem buffer_args_with_reconnect:
  "arbitraryStream_args (\<lambda>n. []) (Buffer [73, 68, 51])
       (empty_options\<lparr>encoderArgs := Arr [''-reconnect'', ''1'']\<rparr>) =
     [''-analyzeduration'', ''0'', ''-loglevel'', ''0'', ''-f'', ''s16le'', ''-ar'', ''48000'',
      ''-ac'', ''2'', ''-i'', ''-'', ''-reconnect'', ''1'']
   \<and> ''-reconnect'' \<in> set (arbitraryStream_args (\<lambda>n. []) (Buffer [73, 68, 51])
       (empty_options\<lparr>encoderArgs := Arr [''-reconnect'', ''1'']\<rparr>))
   \<and> ''-reconnect'' \<in> set reconnect_flags"
  by (simp add: arbitraryStream_args_def arbitraryStream_base_def concat_encoderArgs_def
      unshift_seek_def common_args_def fmt_or_default_def empty_options_def reconnect_flags_def)

text \<open>
  Claim C9, for strings that are not empty. \<^verbatim>\<open>StreamDownloader\<close> throws \<^verbatim>\<open>Error\<close> for every falsy
  \<open>url\<close> and \<^verbatim>\<open>SyntaxError\<close> for every truthy \<open>url\<close> that is not a string, in both
  cases before anything is constructed, piped or listened to; for every string \<open>url\<close>
  that is not empty it returns a stream.
\<close>

theorem source_url_validation:
  "(\<not> truthy url \<longrightarrow>
      StreamDownloader toString url options0 =
        (Inl (Error ''No input url provided''), no_pipeline))
   \<and> (truthy url \<and> typeof url \<noteq> ''string'' \<longrightarrow>
      StreamDownloader toString url options0 =
        (Inl (SyntaxError (''input URL must be a string. Received '' @ typeof url @ ''!'')),
         no_pipeline))
   \<and> (u \<noteq> [] \<longrightarrow> (\<exists>out p. StreamDownloader toString (Str u) options0 = (Inr out, p)))"
  by (simp add: StreamDownloader_def Let_def)

theorem source_url_validation_witness:
  "\<not> truthy Null
   \<and> StreamDownloader (\<lambda>n. []) Null None = (Inl (Error ''No input url provided''), no_pipeline)
   \<and> truthy (Num (Finite 7)) \<and> typeof (Num (Finite 7)) \<noteq> ''string''
   \<and> StreamDownloader (\<lambda>n. []) (Num (Finite 7)) None =
       (Inl (SyntaxError ''input URL must be a string. Received number!''), no_pipeline)
   \<and> ''https://example/video'' \<noteq> []
   \<and> (\<exists>out p. StreamDownloader (\<lambda>n. []) (Str ''https://example/video'') None = (Inr out, p))"
  using source_url_validation [of Null "\<lambda>n. []" None "''https://example/video''"]
    source_url_validation [of "Num (Finite 7)" "\<lambda>n. []" None "''https://example/video''"]
  by simp

text \<open>The empty string is a string, and falsy: the first check throws.\<close>

theorem source_empty_string_throws:
  "typeof (Str []) = ''string''
   \<and> StreamDownloader (\<lambda>n. []) (Str []) None =
       (Inl (Error ''No input url provided''), no_pipeline)"
  by (simp add: StreamDownloader_def)

text \<open>
  Claim C10, with every falsy value. \<^verbatim>\<open>arbitraryStream\<close> throws its validation error exactly for
  the falsy inputs, which are \<^verbatim>\<open>undefined\<close>, \<^verbatim>\<open>null\<close>, \<^verbatim>\<open>false\<close>, NaN, the number
  zero, the BigInt zero and the empty string, among all the values of the language. A Buffer of length zero is truthy: the call returns, the argument list
  contains \<^verbatim>\<open>-i\<close>, \<^verbatim>\<open>-\<close>, and the empty buffer is wrapped by \<^verbatim>\<open>Readable.from\<close>
  and piped into the transcoder.
\<close>

theorem arbitraryStream_validation:
  "(fst (arbitraryStream toString stream options0) = Inl (Error ''No stream source provided''))
     = (\<not> truthy stream)
   \<and> (\<not> truthy stream)
     = (stream \<in> {Undefined, Null, Bool False, Num NaN, Num (Finite 0), BigInt 0, Str []})
   \<and> truthy (Buffer [])
   \<and> (\<exists>pre post. arbitraryStream_args toString (Buffer []) (nullish_default options0) =
         pre @ [''-i'', ''-''] @ post)
   \<and> (\<exists>p. arbitraryStream toString (Buffer []) options0 =
         (Inr (if truthy (opusEncoded (nullish_default options0)) then Encoder else Transcoder), p)
       \<and> (Transcoder,
           FFmpeg (arbitraryStream_args toString (Buffer []) (nullish_default options0)))
           \<in> set (constructed p)
       \<and> (InputStream, ReadableFrom []) \<in> set (constructed p)
       \<and> (InputStream, Transcoder) \<in> set (pipes p))"
proof -
  have thrown: "(fst (arbitraryStream toString stream options0) =
      Inl (Error ''No stream source provided'')) = (\<not> truthy stream)"
    by (cases stream)
       (auto simp: arbitraryStream_def feed_input_def Let_def split: if_splits)
  from thrown falsy_values [of stream] buffer_args_contain_stdin arbitraryStream_buffer
  show ?thesis
    by simp
qed

text \<open>\<^verbatim>\<open>false\<close> is none of null, undefined, zero and the empty string, and is rejected.\<close>

theorem arbitraryStream_false_throws:
  "Bool False \<notin> {Null, Undefined, Num (Finite 0), Str []}
   \<and> arbitraryStream (\<lambda>n. []) (Bool False) None =
       (Inl (Error ''No stream source provided''), no_pipeline)"
  by (simp add: arbitraryStream_def)

end
